theory Spec2Isabelle
  imports Main "HOL-Library.Word" "HOL-Library.Sublist"
begin

unbundle bit_operations_syntax

section \<open>Python values\<close>

text \<open>
  A Python \<open>str\<close> is a sequence of Unicode code points, and \<open>len\<close> counts code points.
  A string is therefore a list of code points; \<open>lit\<close> turns an ASCII literal of the
  source into one.
\<close>

type_synonym pystr = "nat list"

definition lit :: "string \<Rightarrow> pystr" where
  "lit s = map of_char s"

text \<open>
  The values that a setting of \<open>set_window_title.sublime-settings\<close> holds in this model:
  \<open>null\<close>, a boolean or a string (numbers, lists and objects are left out).
\<close>

datatype pyval = PNone | PBool bool | PStr pystr

fun truthy :: "pyval \<Rightarrow> bool" where
  "truthy PNone = False"
| "truthy (PBool b) = b"
| "truthy (PStr s) = (s \<noteq> [])"

text \<open>\<open>str(v)\<close>, which is also \<open>format(v, '')\<close> for these values.\<close>

fun str_py :: "pyval \<Rightarrow> pystr" where
  "str_py PNone = lit ''None''"
| "str_py (PBool b) = (if b then lit ''True'' else lit ''False'')"
| "str_py (PStr s) = s"

text \<open>An optional string (\<open>None\<close> or a \<open>str\<close>) as a Python value, and its truth value.\<close>

fun opt_val :: "pystr option \<Rightarrow> pyval" where
  "opt_val None = PNone"
| "opt_val (Some s) = PStr s"

text \<open>
  The exceptions that the plugin's code can raise. \<open>FieldSyntaxNotModelled\<close> is not a
  Python exception: it marks a replacement field of \<open>str.format\<close> whose syntax
  (conversion, format specification, attribute or index access, non-ASCII name) this
  development does not evaluate.
\<close>

datatype error =
    KeyError pystr
  | IndexError
  | ValueError
  | TypeError
  | AttributeError
  | UnboundLocalError
  | UnicodeEncodeError
  | UnicodeDecodeError
  | AssertionError
  | FieldSyntaxNotModelled

section \<open>The \<open>os.path\<close> module\<close>

text \<open>
  \<open>os.path\<close> is \<open>posixpath\<close> or \<open>ntpath\<close>, depending on the platform; the plugin uses
  five of its functions. They are a parameter of the model. \<open>relpath\<close> raises
  \<open>ValueError\<close> where it returns \<open>None\<close> here.
\<close>

record os_path =
  basename :: "pystr \<Rightarrow> pystr"
  splitext :: "pystr \<Rightarrow> pystr \<times> pystr"
  splitdrive :: "pystr \<Rightarrow> pystr \<times> pystr"
  join :: "pystr \<Rightarrow> pystr list \<Rightarrow> pystr"
  relpath :: "pystr \<Rightarrow> pystr \<Rightarrow> pystr option"

subsection \<open>\<open>posixpath\<close>\<close>

text \<open>\<open>s.rfind(c)\<close> for a single character: the last index of \<open>c\<close>, or \<open>-1\<close>.\<close>

definition rfind :: "nat \<Rightarrow> pystr \<Rightarrow> int" where
  "rfind c s =
     (if c \<in> set s then int (length s) - 1 - int (length (takeWhile (\<lambda>x. x \<noteq> c) (rev s)))
      else - 1)"

text \<open>\<open>s.split(sep)\<close> for a single character.\<close>

fun split_py :: "nat \<Rightarrow> pystr \<Rightarrow> pystr list" where
  "split_py sep [] = [[]]"
| "split_py sep (c # cs) =
     (if c = sep then [] # split_py sep cs
      else (case split_py sep cs of [] \<Rightarrow> [[c]] | w # ws \<Rightarrow> (c # w) # ws))"

text \<open>\<open>sep.join(parts)\<close>.\<close>

fun sep_join :: "pystr \<Rightarrow> pystr list \<Rightarrow> pystr" where
  "sep_join sep [] = []"
| "sep_join sep [p] = p"
| "sep_join sep (p # q # ps) = p @ sep @ sep_join sep (q # ps)"

definition slash :: nat where
  "slash = 47"

definition dot :: nat where
  "dot = 46"

definition posix_basename :: "pystr \<Rightarrow> pystr" where
  "posix_basename p = (let i = rfind slash p + 1 in drop (nat i) p)"

text \<open>
  \<open>genericpath._splitext(p, '/', None, '.')\<close>: the extension starts at the last dot of
  the last component, unless that component has only dots before it.
\<close>

definition posix_splitext :: "pystr \<Rightarrow> pystr \<times> pystr" where
  "posix_splitext p =
     (let sepIndex = rfind slash p; dotIndex = rfind dot p
      in if dotIndex > sepIndex
            \<and> list_ex (\<lambda>c. c \<noteq> dot) (take (nat (dotIndex - (sepIndex + 1))) (drop (nat (sepIndex + 1)) p))
         then (take (nat dotIndex) p, drop (nat dotIndex) p)
         else (p, []))"

definition posix_splitdrive :: "pystr \<Rightarrow> pystr \<times> pystr" where
  "posix_splitdrive p = ([], p)"

fun posix_join :: "pystr \<Rightarrow> pystr list \<Rightarrow> pystr" where
  "posix_join path [] = path"
| "posix_join path (b # bs) =
     (if prefix [slash] b then posix_join b bs
      else if path = [] \<or> suffix [slash] path then posix_join (path @ b) bs
      else posix_join (path @ [slash] @ b) bs)"

text \<open>The loop of \<open>normpath\<close> over the components, \<open>new_comps\<close> kept in order.\<close>

fun norm_comps :: "bool \<Rightarrow> pystr list \<Rightarrow> pystr list \<Rightarrow> pystr list" where
  "norm_comps initial_slashes new_comps [] = new_comps"
| "norm_comps initial_slashes new_comps (c # comps) =
     (if c = [] \<or> c = [dot] then norm_comps initial_slashes new_comps comps
      else if c \<noteq> [dot, dot] \<or> (\<not> initial_slashes \<and> new_comps = [])
               \<or> (new_comps \<noteq> [] \<and> last new_comps = [dot, dot])
           then norm_comps initial_slashes (new_comps @ [c]) comps
      else if new_comps \<noteq> [] then norm_comps initial_slashes (butlast new_comps) comps
      else norm_comps initial_slashes new_comps comps)"

definition posix_normpath :: "pystr \<Rightarrow> pystr" where
  "posix_normpath path =
     (if path = [] then [dot]
      else
        let initial_slashes =
              (if prefix [slash] path
               then (if prefix [slash, slash] path \<and> \<not> prefix [slash, slash, slash] path
                     then 2 else 1)
               else (0::nat));
            comps = norm_comps (initial_slashes \<noteq> 0) [] (split_py slash path);
            path = replicate initial_slashes slash @ sep_join [slash] comps
        in if path = [] then [dot] else path)"

definition posix_abspath :: "pystr \<Rightarrow> pystr \<Rightarrow> pystr" where
  "posix_abspath cwd path =
     posix_normpath (if prefix [slash] path then path else posix_join cwd [path])"

text \<open>\<open>posixpath.relpath(path, start)\<close> in a process whose working directory is \<open>cwd\<close>.\<close>

definition posix_relpath :: "pystr \<Rightarrow> pystr \<Rightarrow> pystr \<Rightarrow> pystr option" where
  "posix_relpath cwd path start =
     (if path = [] then None
      else
        let start_list = filter (\<lambda>x. x \<noteq> []) (split_py slash (posix_abspath cwd start));
            path_list = filter (\<lambda>x. x \<noteq> []) (split_py slash (posix_abspath cwd path));
            i = length (longest_common_prefix start_list path_list);
            rel_list = replicate (length start_list - i) [dot, dot] @ drop i path_list
        in (case rel_list of [] \<Rightarrow> Some [dot] | r # rs \<Rightarrow> Some (posix_join r rs)))"

definition posixpath :: "pystr \<Rightarrow> os_path" where
  "posixpath cwd =
     \<lparr> basename = posix_basename, splitext = posix_splitext, splitdrive = posix_splitdrive,
       join = posix_join, relpath = posix_relpath cwd \<rparr>"

subsection \<open>\<open>ntpath\<close>\<close>

definition backslash :: nat where
  "backslash = 92"

definition colon :: nat where
  "colon = 58"

text \<open>\<open>s.find(c, start)\<close> for a single character.\<close>

definition find_from :: "nat \<Rightarrow> nat \<Rightarrow> pystr \<Rightarrow> int" where
  "find_from c start s =
     (let t = drop start s
      in if c \<in> set t then int start + int (length (takeWhile (\<lambda>x. x \<noteq> c) t)) else - 1)"

text \<open>
  \<open>ntpath.splitdrive\<close>: a drive letter with its colon, or the \<open>\\host\share\<close> part of
  a UNC path; the tests are made on the path with \<open>/\<close> replaced by \<open>\\<close>.
\<close>

definition ntpath_splitdrive :: "pystr \<Rightarrow> pystr \<times> pystr" where
  "ntpath_splitdrive p =
     (if length p \<ge> 2 then
        let normp = map (\<lambda>c. if c = slash then backslash else c) p
        in if take 2 normp = [backslash, backslash] \<and> take 1 (drop 2 normp) \<noteq> [backslash]
           then
             let index = find_from backslash 2 normp
             in if index = - 1 then ([], p)
                else
                  let index2 = find_from backslash (nat index + 1) normp
                  in if index2 = index + 1 then ([], p)
                     else
                       let index2 = (if index2 = - 1 then int (length p) else index2)
                       in (take (nat index2) p, drop (nat index2) p)
           else if take 1 (drop 1 normp) = [colon] then (take 2 p, drop 2 p)
           else ([], p)
      else ([], p))"

text \<open>\<open>ntpath.basename\<close>: what follows the last \<open>\\<close> or \<open>/\<close> after the drive.\<close>

definition ntpath_basename :: "pystr \<Rightarrow> pystr" where
  "ntpath_basename p =
     (let rest = snd (ntpath_splitdrive p)
      in rev (takeWhile (\<lambda>c. c \<noteq> backslash \<and> c \<noteq> slash) (rev rest)))"

definition ntpath_splitext :: "pystr \<Rightarrow> pystr \<times> pystr" where
  "ntpath_splitext p =
     (let sepIndex = max (rfind backslash p) (rfind slash p); dotIndex = rfind dot p
      in if dotIndex > sepIndex
            \<and> list_ex (\<lambda>c. c \<noteq> dot) (take (nat (dotIndex - (sepIndex + 1))) (drop (nat (sepIndex + 1)) p))
         then (take (nat dotIndex) p, drop (nat dotIndex) p)
         else (p, []))"

text \<open>
  \<open>ntpath.join\<close> is not used on Windows by the plugin, and \<open>ntpath.relpath\<close> goes through
  the Win32 call \<open>GetFullPathName\<close>: both stay parameters of the Windows instance.
\<close>

definition ntpath :: "(pystr \<Rightarrow> pystr list \<Rightarrow> pystr) \<Rightarrow> (pystr \<Rightarrow> pystr \<Rightarrow> pystr option) \<Rightarrow> os_path" where
  "ntpath j r =
     \<lparr> basename = ntpath_basename, splitext = ntpath_splitext, splitdrive = ntpath_splitdrive,
       join = j, relpath = r \<rparr>"

section \<open>The host editor and the environment\<close>

text \<open>What the plugin reads of a Sublime Text window and view.\<close>

record sublime_window =
  window_id :: nat
  project_file_name :: "pystr option"
  folders :: "pystr list"

record sublime_view =
  view_id :: nat
  name :: pystr
  file_name :: "pystr option"
  is_dirty :: bool
  window :: "sublime_window option"

datatype platform = Linux | Windows | OSX

text \<open>
  Everything else the code reads and does not write: the platform, \<open>os.path\<close>,
  \<open>os.environ.get("HOME")\<close>, the loaded settings, \<open>__package__\<close>, the output of a shell
  command run by \<open>os.popen\<close>, and the handles that \<open>EnumWindows\<close> reports.
\<close>

record environment =
  PLATFORM :: platform
  path_mod :: os_path
  HOME :: "pystr option"
  settings :: "string \<rightharpoonup> pyval"
  package :: pystr
  popen :: "pystr \<Rightarrow> pystr"
  EnumWindows :: "nat list"

section \<open>Title computation\<close>

text \<open>\<open>get_project\<close> (lines 115 to 129); \<open>None\<close> for a view without a window.\<close>

definition get_project :: "environment \<Rightarrow> sublime_view \<Rightarrow> pystr option" where
  "get_project env view =
     (case window view of
        None \<Rightarrow> None
      | Some w \<Rightarrow>
          let project = (case project_file_name w of None \<Rightarrow> [] | Some p \<Rightarrow> p);
              project = (if project = []
                         then (case folders w of [] \<Rightarrow> [] | f # _ \<Rightarrow> f)
                         else project);
              project = (if project \<noteq> []
                         then fst (splitext (path_mod env) (basename (path_mod env) project))
                         else project)
          in Some project)"

text \<open>The dirty marker: a space and U+2022.\<close>

definition dirty_marker :: pystr where
  "dirty_marker = lit '' '' @ [0x2022]"

text \<open>\<open>get_official_title\<close> (lines 131 to 144).\<close>

definition get_official_title :: "environment \<Rightarrow> sublime_view \<Rightarrow> pystr option \<Rightarrow> pystr" where
  "get_official_title env view project =
     (let view_name =
            (if name view \<noteq> [] then name view
             else (case file_name view of
                     None \<Rightarrow> lit ''untitled''
                   | Some f \<Rightarrow> if f \<noteq> [] then f else lit ''untitled''));
          official_title = basename (path_mod env) view_name;
          official_title = (if is_dirty view then official_title @ dirty_marker
                            else official_title);
          official_title = (case project of
                              None \<Rightarrow> official_title
                            | Some p \<Rightarrow> if p \<noteq> [] then official_title @ lit '' ('' @ p @ lit '')''
                                        else official_title)
      in official_title @ lit '' - Sublime Text'')"

section \<open>The displayed path\<close>

text \<open>\<open>settings.get(key)\<close>: \<open>None\<close> for a key that is not set.\<close>

definition setting_get :: "environment \<Rightarrow> string \<Rightarrow> pyval" where
  "setting_get env key = (case settings env key of None \<Rightarrow> PNone | Some v \<Rightarrow> v)"

text \<open>
  Lines 175 to 177: the path with the home directory at its start replaced by \<open>~\<close>,
  when \<open>HOME\<close> is set and not empty.
\<close>

definition full_candidate :: "environment \<Rightarrow> pystr \<Rightarrow> pystr" where
  "full_candidate env full_path =
     (case HOME env of
        None \<Rightarrow> full_path
      | Some home \<Rightarrow>
          if home \<noteq> [] \<and> prefix home full_path
          then lit ''~'' @ drop (length home) full_path
          else full_path)"

text \<open>
  Lines 180 to 183: the path relative to the window's first folder, when there is one
  and both are on the same drive; the path itself otherwise.
\<close>

definition rel_candidate :: "environment \<Rightarrow> sublime_view \<Rightarrow> pystr \<Rightarrow> error + pystr" where
  "rel_candidate env view full_path =
     (let folders = (case window view of None \<Rightarrow> [] | Some w \<Rightarrow> folders w);
          root = (case folders of [] \<Rightarrow> [] | r # _ \<Rightarrow> r)
      in if root \<noteq> []
            \<and> fst (splitdrive (path_mod env) full_path) = fst (splitdrive (path_mod env) root)
         then (case relpath (path_mod env) full_path root of
                 None \<Rightarrow> Inl ValueError
               | Some rel_path \<Rightarrow> Inr rel_path)
         else Inr full_path)"

text \<open>
  \<open>_get_displayed_path\<close> (lines 163 to 190). The local variable \<open>rel_path\<close> is
  assigned only in the modes "relative" and "shortest": it is an option here, and reading
  it while it is unassigned raises \<open>UnboundLocalError\<close>.
\<close>

definition get_displayed_path :: "environment \<Rightarrow> sublime_view \<Rightarrow> error + pyval" where
  "get_displayed_path env view =
     (let untitled = (case settings env ''untitled'' of
                        None \<Rightarrow> PStr (lit ''untitled'')
                      | Some v \<Rightarrow> v)
      in if name view \<noteq> [] then Inr (PStr (name view))
         else
           (case file_name view of
              None \<Rightarrow> Inr untitled
            | Some full_path \<Rightarrow>
                if full_path = [] then Inr untitled
                else
                  let display = setting_get env ''path_display'';
                      full_path =
                        (if display = PStr (lit ''full'') \<or> display = PStr (lit ''shortest'')
                         then full_candidate env full_path
                         else full_path);
                      rel_path =
                        (if display = PStr (lit ''relative'') \<or> display = PStr (lit ''shortest'')
                         then map_sum id Some (rel_candidate env view full_path)
                         else Inr None)
                  in (case rel_path of
                        Inl e \<Rightarrow> Inl e
                      | Inr rel_path \<Rightarrow>
                          if display = PStr (lit ''full'') then Inr (PStr full_path)
                          else if display = PStr (lit ''relative'')
                          then (case rel_path of
                                  None \<Rightarrow> Inl UnboundLocalError
                                | Some r \<Rightarrow> Inr (PStr r))
                          else (case rel_path of
                                  None \<Rightarrow> Inl UnboundLocalError
                                | Some r \<Rightarrow>
                                    Inr (PStr (if length full_path \<le> length r then full_path
                                               else r))))))"

section \<open>The template\<close>

text \<open>
  \<open>s.replace(old, new)\<close>: every occurrence of \<open>old\<close>, found from left to right without
  overlap, is replaced by \<open>new\<close>.
\<close>

function replace_py :: "pystr \<Rightarrow> pystr \<Rightarrow> pystr \<Rightarrow> pystr" where
  "replace_py [] old new = (if old = [] then new else [])"
| "replace_py (c # cs) old new =
     (if old = [] then new @ c # replace_py cs old new
      else if prefix old (c # cs) then new @ replace_py (drop (length old) (c # cs)) old new
      else c # replace_py cs old new)"
  by pat_completeness auto
termination
  by (relation "measure (\<lambda>(s, old, new). length s)") auto

text \<open>\<open>_replace_condition\<close> (lines 192 to 197).\<close>

definition replace_condition :: "environment \<Rightarrow> pyval \<Rightarrow> string \<Rightarrow> bool \<Rightarrow> error + pyval" where
  "replace_condition env template condition val =
     (let replacement =
            (if val then setting_get env (condition @ ''_true'')
             else setting_get env (condition @ ''_false''))
      in case template of
           PStr t \<Rightarrow>
             (case replacement of
                PStr r \<Rightarrow> Inr (PStr (replace_py t (lit (''{'' @ condition @ ''}'')) r))
              | _ \<Rightarrow> Inl TypeError)
         | _ \<Rightarrow> Inl AttributeError)"

subsection \<open>\<open>str.format\<close>\<close>

text \<open>
  \<open>template.format(path=path, project=project)\<close>, read from left to right: \<open>{{\<close> and
  \<open>}}\<close> are braces, a single \<open>}\<close> is a \<open>ValueError\<close>, and \<open>{name}\<close> is a replacement
  field. A field is evaluated here when the text up to its closing brace is made of ASCII
  characters other than \<open>{ } [ ] . ! :\<close>; the other fields are \<open>FieldSyntaxNotModelled\<close>.
  There are no positional arguments, so an empty or numeric name is an \<open>IndexError\<close>
  (numeric names of more than nine digits are left out, since they may overflow
  \<open>Py_ssize_t\<close>); any other name than \<open>path\<close> and \<open>project\<close> is a \<open>KeyError\<close>.
\<close>

definition lbrace :: nat where
  "lbrace = 123"

definition rbrace :: nat where
  "rbrace = 125"

definition plain_name_char :: "nat \<Rightarrow> bool" where
  "plain_name_char c = (c < 128 \<and> c \<notin> set (lit ''{}[].!:''))"

definition is_digit :: "nat \<Rightarrow> bool" where
  "is_digit c = (48 \<le> c \<and> c \<le> 57)"

definition get_field :: "pyval \<Rightarrow> pyval \<Rightarrow> pystr \<Rightarrow> error + pystr" where
  "get_field path project field_name =
     (if list_all is_digit field_name
      then (if length field_name \<le> 9 then Inl IndexError else Inl FieldSyntaxNotModelled)
      else if field_name = lit ''path'' then Inr (str_py path)
      else if field_name = lit ''project'' then Inr (str_py project)
      else Inl (KeyError field_name))"

definition emit :: "pystr \<Rightarrow> error + pystr \<Rightarrow> error + pystr" where
  "emit text rest = (case rest of Inl e \<Rightarrow> Inl e | Inr out \<Rightarrow> Inr (text @ out))"

function format_py :: "pyval \<Rightarrow> pyval \<Rightarrow> pystr \<Rightarrow> error + pystr" where
  "format_py path project [] = Inr []"
| "format_py path project (c # cs) =
     (if c = rbrace then
        (case cs of
           [] \<Rightarrow> Inl ValueError
         | d # ds \<Rightarrow> if d = rbrace then emit [rbrace] (format_py path project ds)
                     else Inl ValueError)
      else if c = lbrace then
        (case cs of
           [] \<Rightarrow> Inl ValueError
         | d # ds \<Rightarrow>
             if d = lbrace then emit [lbrace] (format_py path project ds)
             else
               (case dropWhile plain_name_char cs of
                  [] \<Rightarrow> Inl ValueError
                | e # es \<Rightarrow>
                    if e = rbrace then
                      (case get_field path project (takeWhile plain_name_char cs) of
                         Inl err \<Rightarrow> Inl err
                       | Inr v \<Rightarrow> emit v (format_py path project es))
                    else Inl FieldSyntaxNotModelled))
      else emit [c] (format_py path project cs))"
  by pat_completeness auto
termination
proof (relation "measure (\<lambda>(path, project, s). length s)")
  show "wf (measure (\<lambda>(path, project, s). length s))"
    by simp
next
  fix path project :: pyval and c e :: nat and cs es :: pystr
  assume "dropWhile plain_name_char cs = e # es"
  then have "length (e # es) \<le> length cs"
    using length_dropWhile_le [of plain_name_char cs] by simp
  then show "((path, project, es), path, project, c # cs) \<in> measure (\<lambda>(path, project, s). length s)"
    by simp
qed auto

text \<open>
  \<open>get_new_title\<close> (lines 146 to 161). The local \<open>full_path\<close> of lines 152 and 153 is
  never read, and neither is the parameter \<open>old_title\<close>.
\<close>

definition get_new_title ::
  "environment \<Rightarrow> sublime_view \<Rightarrow> pystr option \<Rightarrow> pystr \<Rightarrow> error + pystr" where
  "get_new_title env view project old_title =
     (case get_displayed_path env view of
        Inl e \<Rightarrow> Inl e
      | Inr path \<Rightarrow>
          (case replace_condition env (setting_get env ''template'') ''has_project''
                  (truthy (opt_val project)) of
             Inl e \<Rightarrow> Inl e
           | Inr template \<Rightarrow>
               (case replace_condition env template ''is_dirty'' (is_dirty view) of
                  Inl e \<Rightarrow> Inl e
                | Inr template \<Rightarrow>
                    (case template of
                       PStr t \<Rightarrow> format_py path (opt_val project) t
                     | _ \<Rightarrow> Inl AttributeError))))"

section \<open>The plugin's state\<close>

text \<open>
  What the listener and its collaborators hold between two events: the attributes of the
  \<open>SetWindowTitle\<close> object (\<open>ready\<close>, \<open>script_path\<close>, \<open>window_handle_cache\<close>), the
  \<open>set_window_title_was_dirty\<close> setting of each view (by view id), and the text of each
  top-level window of the operating system (by handle, as 16-bit code units). Four more
  fields record what the code does to the outside: the lines it prints, the commands it
  passes to \<open>os.popen\<close>, the calls of \<open>rename_window\<close> with their two titles, and the
  number of window enumerations.
\<close>

record state =
  ready :: bool
  script_path :: "pystr option"
  window_handle_cache :: "nat \<rightharpoonup> nat"
  was_dirty :: "nat \<rightharpoonup> bool"
  titles :: "nat \<rightharpoonup> 16 word list"
  printed :: "pystr list"
  commands :: "pystr list"
  renames :: "(pystr \<times> pystr) list"
  enumerations :: nat


section \<open>The \<open>Window\<close> class (Windows)\<close>

subsection \<open>The \<open>utf16\<close> codec\<close>

text \<open>
  The UTF-16 code units of one code point; \<open>None\<close> for a surrogate (and for a number
  that is no code point), which \<open>encode\<close> refuses.
\<close>

definition utf16_units :: "nat \<Rightarrow> 16 word list option" where
  "utf16_units cp =
     (if cp < 0xD800 \<or> (0xE000 \<le> cp \<and> cp < 0x10000) then Some [of_nat cp]
      else if 0x10000 \<le> cp \<and> cp < 0x110000
      then Some [of_nat (0xD800 + (cp - 0x10000) div 0x400),
                 of_nat (0xDC00 + (cp - 0x10000) mod 0x400)]
      else None)"

fun encode_units :: "pystr \<Rightarrow> 16 word list option" where
  "encode_units [] = Some []"
| "encode_units (cp # cps) =
     (case utf16_units cp of
        None \<Rightarrow> None
      | Some us \<Rightarrow> (case encode_units cps of None \<Rightarrow> None | Some vs \<Rightarrow> Some (us @ vs)))"

text \<open>A code unit in memory, and a buffer of bytes read as code units (little-endian).\<close>

definition unit_bytes :: "16 word \<Rightarrow> 8 word list" where
  "unit_bytes u = [ucast u, ucast (drop_bit 8 u)]"

fun bytes_units :: "8 word list \<Rightarrow> 16 word list" where
  "bytes_units (lo # hi # bs) = (ucast lo OR push_bit 8 (ucast hi)) # bytes_units bs"
| "bytes_units bs = []"

text \<open>The same bytes read as big-endian code units.\<close>

fun bytes_units_be :: "8 word list \<Rightarrow> 16 word list" where
  "bytes_units_be (hi # lo # bs) = (ucast lo OR push_bit 8 (ucast hi)) # bytes_units_be bs"
| "bytes_units_be bs = []"

text \<open>\<open>title.encode('utf16')\<close>: the byte order mark, then the code units.\<close>

definition encode_utf16 :: "pystr \<Rightarrow> error + 8 word list" where
  "encode_utf16 s =
     (case encode_units s of
        None \<Rightarrow> Inl UnicodeEncodeError
      | Some us \<Rightarrow> Inr ([0xFF, 0xFE] @ concat (map unit_bytes us)))"

fun decode_units :: "16 word list \<Rightarrow> error + pystr" where
  "decode_units [] = Inr []"
| "decode_units (u # us) =
     (let x = unat u
      in if x < 0xD800 \<or> 0xE000 \<le> x then emit [x] (decode_units us)
         else if x < 0xDC00 then
           (case us of
              [] \<Rightarrow> Inl UnicodeDecodeError
            | v # vs \<Rightarrow>
                let y = unat v
                in if 0xDC00 \<le> y \<and> y < 0xE000
                   then emit [0x10000 + (x - 0xD800) * 0x400 + (y - 0xDC00)] (decode_units vs)
                   else Inl UnicodeDecodeError)
         else Inl UnicodeDecodeError)"

text \<open>
  \<open>b.decode('utf16')\<close>: a leading byte order mark chooses the byte order and is dropped;
  without one the order is the machine's, little-endian.
\<close>

definition decode_utf16 :: "8 word list \<Rightarrow> error + pystr" where
  "decode_utf16 b =
     (if odd (length b) then Inl UnicodeDecodeError
      else if take 2 b = [0xFF, 0xFE] then decode_units (bytes_units (drop 2 b))
      else if take 2 b = [0xFE, 0xFF] then decode_units (bytes_units_be (drop 2 b))
      else decode_units (bytes_units b))"

subsection \<open>The title property\<close>

text \<open>
  \<open>SetWindowTextW\<close> reads the text at the pointer up to the first zero code unit and
  stores it as the window's text; it fails, with no effect, on a handle that is no
  window.
\<close>

definition SetWindowTextW :: "nat \<Rightarrow> 8 word list \<Rightarrow> state \<Rightarrow> state" where
  "SetWindowTextW handle buffer s =
     (if handle \<in> dom (titles s)
      then s\<lparr>titles := (titles s)(handle \<mapsto> takeWhile (\<lambda>u. u \<noteq> 0) (bytes_units buffer))\<rparr>
      else s)"

definition GetWindowTextLengthW :: "nat \<Rightarrow> state \<Rightarrow> nat" where
  "GetWindowTextLengthW handle s = (case titles s handle of None \<Rightarrow> 0 | Some text \<Rightarrow> length text)"

text \<open>
  \<open>GetWindowTextW(handle, t, nMaxCount)\<close> copies at most \<open>nMaxCount - 1\<close> code units and
  a terminating zero into the buffer, and returns the number of code units copied.
\<close>

definition GetWindowTextW :: "nat \<Rightarrow> nat \<Rightarrow> state \<Rightarrow> 16 word list \<times> nat" where
  "GetWindowTextW handle nMaxCount s =
     (let text = (case titles s handle of None \<Rightarrow> [] | Some text \<Rightarrow> text);
          copied = take (nMaxCount - 1) text
      in (copied @ replicate (nMaxCount - length copied) 0, length copied))"

text \<open>The setter (lines 41 to 46).\<close>

definition set_title :: "nat \<Rightarrow> pystr \<Rightarrow> state \<Rightarrow> error option \<times> state" where
  "set_title handle title s =
     (case encode_utf16 title of
        Inl e \<Rightarrow> (Some e, s)
      | Inr b \<Rightarrow>
          let n = length b;
              t = b @ replicate 10 0
          in (None, SetWindowTextW handle t s))"

text \<open>The getter (lines 31 to 39).\<close>

definition get_title :: "nat \<Rightarrow> state \<Rightarrow> error + pystr" where
  "get_title handle s =
     (let n = GetWindowTextLengthW handle s;
          (t, n2) = GetWindowTextW handle (n + 1) s
      in if n \<noteq> n2 then Inl AssertionError
         else decode_utf16 (take (n2 * 2) (concat (map unit_bytes t))))"

section \<open>Renaming the window\<close>

text \<open>The loop of lines 213 to 215 over the windows of \<open>Window.all()\<close>.\<close>

fun rename_matching :: "pystr \<Rightarrow> pystr \<Rightarrow> nat list \<Rightarrow> state \<Rightarrow> error option \<times> state" where
  "rename_matching official_title new_title [] s = (None, s)"
| "rename_matching official_title new_title (w # ws) s =
     (case get_title w s of
        Inl e \<Rightarrow> (Some e, s)
      | Inr title \<Rightarrow>
          if sublist official_title title then
            (case set_title w new_title s of
               (Some e, s') \<Rightarrow> (Some e, s')
             | (None, s') \<Rightarrow> rename_matching official_title new_title ws s')
          else rename_matching official_title new_title ws s)"

definition print_line :: "pystr \<Rightarrow> state \<Rightarrow> state" where
  "print_line line s = s\<lparr>printed := printed s @ [line]\<rparr>"

definition dquote :: nat where
  "dquote = 34"

text \<open>
  \<open>rename_window\<close> (lines 199 to 218). The assignment to \<open>window_handle_cache\<close> of line
  216 is commented out in the source, so the model has none.
\<close>

definition rename_window ::
  "environment \<Rightarrow> sublime_window option \<Rightarrow> pystr \<Rightarrow> pystr \<Rightarrow> state \<Rightarrow> error option \<times> state" where
  "rename_window env view_window official_title new_title s0 =
     (let s = s0\<lparr>renames := renames s0 @ [(official_title, new_title)]\<rparr>;
          debug = truthy (setting_get env ''debug'')
      in case PLATFORM env of
           Linux \<Rightarrow>
             let cmd = lit ''bash '' @ str_py (opt_val (script_path s)) @ lit '' '' @ [dquote]
                       @ official_title @ [dquote] @ lit '' '' @ [dquote] @ new_title @ [dquote];
                 s = (if debug then print_line (lit ''[SetWindowTitle] Debug: running:  '' @ cmd) s
                      else s);
                 output_text = popen env (cmd @ lit '' 1&2'');
                 s = s\<lparr>commands := commands s @ [cmd @ lit '' 1&2'']\<rparr>;
                 s = (if debug
                      then print_line (lit ''[SetWindowTitle] Debug: result:  '' @ output_text) s
                      else s)
             in (None, s)
         | Windows \<Rightarrow>
             (case view_window of
                None \<Rightarrow> (Some AttributeError, s)
              | Some win \<Rightarrow>
                  (case window_handle_cache s (window_id win) of
                     None \<Rightarrow>
                       rename_matching official_title new_title (EnumWindows env)
                         (s\<lparr>enumerations := Suc (enumerations s)\<rparr>)
                   | Some w \<Rightarrow> set_title w new_title s))
         | OSX \<Rightarrow> (None, s))"

section \<open>The event handlers\<close>

definition not_ready_notice :: pystr where
  "not_ready_notice = lit ''[SetWindowTitle] Info: ST haven't finished loading yet, skipping.''"

text \<open>\<open>run\<close> (lines 103 to 113).\<close>

definition run :: "environment \<Rightarrow> sublime_view \<Rightarrow> state \<Rightarrow> error option \<times> state" where
  "run env view s =
     (if \<not> ready s then (None, print_line not_ready_notice s)
      else
        let project = get_project env view;
            official_title = get_official_title env view project
        in case get_new_title env view project official_title of
             Inl e \<Rightarrow> (Some e, s)
           | Inr new_title \<Rightarrow>
               (case rename_window env (window view) official_title new_title s of
                  (Some e, s') \<Rightarrow> (Some e, s')
                | (None, s') \<Rightarrow>
                    (None, s'\<lparr>was_dirty := (was_dirty s')(view_id view \<mapsto> is_dirty view)\<rparr>)))"

definition on_activated_async :: "environment \<Rightarrow> sublime_view \<Rightarrow> state \<Rightarrow> error option \<times> state" where
  "on_activated_async env view s = run env view s"

definition on_modified_async :: "environment \<Rightarrow> sublime_view \<Rightarrow> state \<Rightarrow> error option \<times> state" where
  "on_modified_async env view s =
     (if was_dirty s (view_id view) \<noteq> Some (is_dirty view) then run env view s else (None, s))"

definition on_post_save_async :: "environment \<Rightarrow> sublime_view \<Rightarrow> state \<Rightarrow> error option \<times> state" where
  "on_post_save_async env view s = run env view s"

text \<open>
  The polling loop of lines 80 to 83: \<open>host i\<close> is what the \<open>i\<close>-th call of
  \<open>sublime.packages_path()\<close> returns. The loop may run forever; \<open>None\<close> is "does not
  return".
\<close>

partial_function (option) wait_packages_path :: "(nat \<Rightarrow> pystr) \<Rightarrow> nat \<Rightarrow> pystr option" where
  "wait_packages_path host i =
     (if host i \<noteq> [] then Some (host i) else wait_packages_path host (Suc i))"

text \<open>The loop of lines 90 and 91 over the active views of the open windows.\<close>

fun run_each :: "environment \<Rightarrow> sublime_view list \<Rightarrow> state \<Rightarrow> error option \<times> state" where
  "run_each env [] s = (None, s)"
| "run_each env (view # views) s =
     (case run env view s of
        (Some e, s') \<Rightarrow> (Some e, s')
      | (None, s') \<Rightarrow> run_each env views s')"

text \<open>\<open>on_sublime_started\<close> (lines 79 to 91).\<close>

definition on_sublime_started ::
  "environment \<Rightarrow> (nat \<Rightarrow> pystr) \<Rightarrow> sublime_view list \<Rightarrow> state \<Rightarrow> (error option \<times> state) option" where
  "on_sublime_started env host active_views s =
     (case wait_packages_path host 0 of
        None \<Rightarrow> None
      | Some packages_path \<Rightarrow>
          let s = (if PLATFORM env = Linux
                   then s\<lparr>script_path :=
                           Some (join (path_mod env) packages_path
                                   [package env, lit ''fix_window_title.sh''])\<rparr>
                   else s);
              s = s\<lparr>ready := True\<rparr>
          in Some (run_each env active_views s))"

text \<open>
  The events the host sends, and the state after the handler of each: an exception ends
  the handler and keeps what it had written, and a start-up handler that never returns
  has written nothing.
\<close>

datatype event =
    Activated sublime_view
  | Modified sublime_view
  | PostSave sublime_view
  | Started "nat \<Rightarrow> pystr" "sublime_view list"

fun handle :: "environment \<Rightarrow> event \<Rightarrow> state \<Rightarrow> state" where
  "handle env (Activated view) s = snd (on_activated_async env view s)"
| "handle env (Modified view) s = snd (on_modified_async env view s)"
| "handle env (PostSave view) s = snd (on_post_save_async env view s)"
| "handle env (Started host active_views) s =
     (case on_sublime_started env host active_views s of None \<Rightarrow> s | Some (e, s') \<Rightarrow> s')"


section \<open>Example inputs\<close>

definition example_settings :: "string \<Rightarrow> string \<Rightarrow> string \<rightharpoonup> pyval" where
  "example_settings mode template =
     [''template'' \<mapsto> PStr (lit template),
      ''has_project_true'' \<mapsto> PStr (lit '' [{project}]''),
      ''has_project_false'' \<mapsto> PStr [],
      ''is_dirty_true'' \<mapsto> PStr (lit ''*''),
      ''is_dirty_false'' \<mapsto> PStr [],
      ''path_display'' \<mapsto> PStr (lit mode),
      ''debug'' \<mapsto> PBool False]"

definition linux_env :: "pystr option \<Rightarrow> string \<Rightarrow> string \<Rightarrow> environment" where
  "linux_env home mode template =
     \<lparr> PLATFORM = Linux, path_mod = posixpath (lit ''/''), HOME = home,
       settings = example_settings mode template, package = lit ''SetWindowTitle'',
       popen = (\<lambda>cmd. []), EnumWindows = [] \<rparr>"

definition windows_env :: "string \<Rightarrow> string \<Rightarrow> nat list \<Rightarrow> environment" where
  "windows_env mode template handles =
     \<lparr> PLATFORM = Windows, path_mod = ntpath (\<lambda>a bs. a) (\<lambda>path start. None), HOME = None,
       settings = example_settings mode template, package = lit ''SetWindowTitle'',
       popen = (\<lambda>cmd. []), EnumWindows = handles \<rparr>"

definition project_window :: sublime_window where
  "project_window =
     \<lparr> window_id = 1, project_file_name = None, folders = [lit ''/home/u/proj''] \<rparr>"

definition file_view :: "bool \<Rightarrow> sublime_view" where
  "file_view dirty =
     \<lparr> view_id = 1, name = [], file_name = Some (lit ''/home/u/proj/a.txt''), is_dirty = dirty,
       window = Some project_window \<rparr>"

definition drive_view :: sublime_view where
  "drive_view =
     \<lparr> view_id = 2, name = [], file_name = Some (lit ''C:/src/a.txt''), is_dirty = False,
       window = Some \<lparr> window_id = 2, project_file_name = None, folders = [lit ''D:/proj''] \<rparr> \<rparr>"


section \<open>Properties\<close>

subsection \<open>Vocabulary of the statements\<close>






subsection \<open>The official title\<close>

text \<open>
  The three parts of the official title after the base name, written out: the name whose
  base name is taken, and the project part.
\<close>

definition shown_name :: "sublime_view \<Rightarrow> pystr" where
  "shown_name view =
     (if name view \<noteq> [] then name view
      else if file_name view \<noteq> None \<and> file_name view \<noteq> Some [] then the (file_name view)
      else lit ''untitled'')"

definition project_part :: "pystr option \<Rightarrow> pystr" where
  "project_part project =
     (if project \<noteq> None \<and> project \<noteq> Some [] then lit '' ('' @ the project @ lit '')'' else [])"

lemma shown_name_cases:
  "(if name view \<noteq> [] then name view
    else (case file_name view of
            None \<Rightarrow> lit ''untitled''
          | Some f \<Rightarrow> if f \<noteq> [] then f else lit ''untitled'')) = shown_name view"
  by (simp add: shown_name_def split: option.splits)

text \<open>
  C5. The official title is the base name of the view name, or else of the file path, or
  else of "untitled"; then the dirty marker exactly when the view is dirty; then the
  project in brackets exactly when there is a non-empty project name; then
  " - Sublime Text".
\<close>

theorem official_title_shape:
  "get_official_title env view project =
     basename (path_mod env) (shown_name view)
     @ (if is_dirty view then lit '' '' @ [0x2022] else [])
     @ project_part project
     @ lit '' - Sublime Text''"
  by (auto simp add: get_official_title_def Let_def shown_name_cases dirty_marker_def
      project_part_def split: option.splits)

theorem official_title_shape_witness:
  "get_official_title
     \<lparr> PLATFORM = Linux, path_mod = posixpath (lit ''/''), HOME = None, settings = Map.empty,
       package = lit ''SetWindowTitle'', popen = (\<lambda>_. []), EnumWindows = [] \<rparr>
     \<lparr> view_id = 1, name = [], file_name = Some (lit ''/home/u/proj/a.txt''), is_dirty = True,
       window = None \<rparr>
     (Some (lit ''proj''))
   = lit ''a.txt'' @ lit '' '' @ [0x2022] @ lit '' (proj)'' @ lit '' - Sublime Text''"
  by (simp add: official_title_shape shown_name_def project_part_def posixpath_def
      posix_basename_def rfind_def slash_def lit_def)

text \<open>
  C9. Computing the official title of the same view and project once dirty and once
  clean changes only the dirty marker: the base name before it and the project part and
  the editor suffix after it are the same in both titles.
\<close>

theorem dirty_toggle_frame:
  "get_official_title env (view\<lparr>is_dirty := True\<rparr>) project =
     basename (path_mod env) (shown_name view) @ dirty_marker
     @ project_part project @ lit '' - Sublime Text''
   \<and> get_official_title env (view\<lparr>is_dirty := False\<rparr>) project =
     basename (path_mod env) (shown_name view)
     @ project_part project @ lit '' - Sublime Text''"
  by (auto simp add: get_official_title_def Let_def shown_name_def dirty_marker_def
      project_part_def split: option.splits)

subsection \<open>The displayed path\<close>

text \<open>
  For a view without a name and with a file path, \<open>_get_displayed_path\<close> by mode.
\<close>

lemma displayed_path_file:
  assumes "name view = []" and "file_name view = Some p" and "p \<noteq> []"
  shows "get_displayed_path env view =
     (let display = setting_get env ''path_display'' in
      if display = PStr (lit ''full'') then Inr (PStr (full_candidate env p))
      else if display = PStr (lit ''relative'')
      then map_sum id PStr (rel_candidate env view p)
      else if display = PStr (lit ''shortest'')
      then map_sum id (\<lambda>r. PStr (if length (full_candidate env p) \<le> length r
                                    then full_candidate env p else r))
             (rel_candidate env view (full_candidate env p))
      else Inl UnboundLocalError)"
proof -
  let ?d = "setting_get env ''path_display''"
  consider (full) "?d = PStr (lit ''full'')" | (rel) "?d = PStr (lit ''relative'')"
    | (shortest) "?d = PStr (lit ''shortest'')"
    | (other) "?d \<noteq> PStr (lit ''full'')" "?d \<noteq> PStr (lit ''relative'')"
        "?d \<noteq> PStr (lit ''shortest'')"
    by blast
  then show ?thesis
  proof cases
    case full
    with assms show ?thesis
      by (simp add: get_displayed_path_def lit_def)
  next
    case rel
    with assms show ?thesis
      by (cases "rel_candidate env view p") (simp_all add: get_displayed_path_def lit_def)
  next
    case shortest
    with assms show ?thesis
      by (cases "rel_candidate env view (full_candidate env p)")
        (simp_all add: get_displayed_path_def lit_def)
  next
    case other
    with assms show ?thesis
      by (simp add: get_displayed_path_def)
  qed
qed

lemma rel_candidate_not_unbound: "rel_candidate env view p \<noteq> Inl UnboundLocalError"
  by (simp add: rel_candidate_def Let_def split: option.splits)

text \<open>
  What line 190 gives in mode "shortest": the shorter of the two strings it compares, the
  first on a tie. The first is the path with the home directory abbreviated; the second
  is the relative form of that abbreviated string (line 177 has overwritten \<open>full_path\<close>
  before line 183 reads it), not the relative form of the file.
\<close>

lemma shortest_min_of_compared:
  assumes "name view = []" and "file_name view = Some p" and "p \<noteq> []"
    and "setting_get env ''path_display'' = PStr (lit ''shortest'')"
    and "rel_candidate env view (full_candidate env p) = Inr r"
  shows "\<exists>x. get_displayed_path env view = Inr (PStr x)
     \<and> length x \<le> length (full_candidate env p) \<and> length x \<le> length r
     \<and> (length (full_candidate env p) = length r \<longrightarrow> x = full_candidate env p)"
  using assms by (simp add: displayed_path_file lit_def)

text \<open>
  C4. In mode "shortest" the result should be no longer than the full-path candidate and
  no longer than the relative-path candidate, which are what the modes "full" and
  "relative" return for the same file. The code breaks this for a file under the home
  directory and under the project root: with \<open>HOME=/home/u\<close>, the file
  \<open>/home/u/proj/a.txt\<close>, the folder \<open>/home/u/proj\<close> and the working directory \<open>/\<close>,
  mode "full" returns \<open>~/proj/a.txt\<close>, mode "relative" returns \<open>a.txt\<close>, and mode
  "shortest" returns \<open>~/proj/a.txt\<close>, which is longer than \<open>a.txt\<close>.
\<close>

theorem shortest_exceeds_relative:
  "get_displayed_path (linux_env (Some (lit ''/home/u'')) ''full'' ''{path}'') (file_view False)
     = Inr (PStr (lit ''~/proj/a.txt''))
   \<and> get_displayed_path (linux_env (Some (lit ''/home/u'')) ''relative'' ''{path}'') (file_view False)
     = Inr (PStr (lit ''a.txt''))
   \<and> get_displayed_path (linux_env (Some (lit ''/home/u'')) ''shortest'' ''{path}'') (file_view False)
     = Inr (PStr (lit ''~/proj/a.txt''))
   \<and> length (lit ''a.txt'') < length (lit ''~/proj/a.txt'')"
  by code_simp

text \<open>
  C6, as stated, fails for an empty home directory: every path starts with the empty
  string, and line 176 does not abbreviate then.
\<close>

theorem full_empty_home_counterexample:
  "prefix [] (lit ''/etc/hosts'')
   \<and> get_displayed_path (linux_env (Some []) ''full'' ''{path}'')
        \<lparr> view_id = 1, name = [], file_name = Some (lit ''/etc/hosts''), is_dirty = False,
          window = None \<rparr>
      = Inr (PStr (lit ''/etc/hosts''))
   \<and> lit ''/etc/hosts'' \<noteq> lit ''~'' @ drop (length ([] :: pystr)) (lit ''/etc/hosts'')"
  by code_simp

text \<open>
  C6, amended. For every non-empty home directory \<open>h\<close> and every file path \<open>p\<close> that
  starts with \<open>h\<close>, mode "full" returns \<open>~\<close> followed by \<open>p\<close> without its first
  \<open>len(h)\<close> characters (for a view without a view name).
\<close>

theorem full_home:
  assumes "name view = []" and "file_name view = Some p"
    and "HOME env = Some h" and "h \<noteq> []" and "prefix h p"
    and "setting_get env ''path_display'' = PStr (lit ''full'')"
  shows "get_displayed_path env view = Inr (PStr (lit ''~'' @ drop (length h) p))"
proof -
  from \<open>h \<noteq> []\<close> \<open>prefix h p\<close> have "p \<noteq> []" by auto
  with assms show ?thesis
    by (simp add: displayed_path_file full_candidate_def)
qed

theorem full_home_witness:
  "get_displayed_path (linux_env (Some (lit ''/home/u'')) ''full'' ''{path}'') (file_view False)
     = Inr (PStr (lit ''~'' @ drop (length (lit ''/home/u'')) (lit ''/home/u/proj/a.txt'')))"
  by (rule full_home) code_simp+

text \<open>
  With \<open>HOME\<close> set to the empty string, mode "full" returns the file path unchanged.
\<close>

lemma full_empty_home_unchanged:
  assumes "name view = []" and "file_name view = Some p" and "p \<noteq> []"
    and "HOME env = Some []"
    and "setting_get env ''path_display'' = PStr (lit ''full'')"
  shows "get_displayed_path env view = Inr (PStr p)"
  using assms by (simp add: displayed_path_file full_candidate_def)

text \<open>
  C7. In mode "relative", when the drive of the file path \<open>p\<close> differs from the drive of
  the project root (the window's first folder), the result is \<open>p\<close> unchanged.
\<close>

theorem relative_other_drive:
  assumes "name view = []" and "file_name view = Some p" and "p \<noteq> []"
    and "setting_get env ''path_display'' = PStr (lit ''relative'')"
    and "window view = Some w" and "folders w = root # others"
    and "fst (splitdrive (path_mod env) p) \<noteq> fst (splitdrive (path_mod env) root)"
  shows "get_displayed_path env view = Inr (PStr p)"
  using assms by (simp add: displayed_path_file rel_candidate_def lit_def)

theorem relative_other_drive_witness:
  "get_displayed_path (windows_env ''relative'' ''{path}'' []) drive_view = Inr (PStr (lit ''C:/src/a.txt''))"
  by (rule relative_other_drive [where root = "lit ''D:/proj''" and others = "[]"]) code_simp+

text \<open>
  C10. For a view with no view name and a file path, the computation fails with
  \<open>UnboundLocalError\<close> (the read of the unassigned \<open>rel_path\<close> on line 190) exactly
  when \<open>path_display\<close> is none of "full", "relative" and "shortest"; an absent setting
  is \<open>None\<close> and is among them.
\<close>

theorem unknown_mode_unbound:
  assumes "name view = []" and "file_name view = Some p" and "p \<noteq> []"
  shows "get_displayed_path env view = Inl UnboundLocalError
     \<longleftrightarrow> setting_get env ''path_display'' \<notin> {PStr (lit ''full''), PStr (lit ''relative''), PStr (lit ''shortest'')}"
proof -
  have "map_sum id f (rel_candidate env view q) \<noteq> Inl UnboundLocalError" for f :: "pystr \<Rightarrow> pyval" and q
    using rel_candidate_not_unbound [of env view q]
    by (cases "rel_candidate env view q") auto
  then show ?thesis using assms
  by (simp add: displayed_path_file Let_def)
qed

theorem unknown_mode_unbound_witness:
  "get_displayed_path (linux_env None ''short'' ''{path}'') (file_view False) = Inl UnboundLocalError"
proof -
  have "setting_get (linux_env None ''short'' ''{path}'') ''path_display''
      \<notin> {PStr (lit ''full''), PStr (lit ''relative''), PStr (lit ''shortest'')}"
    by code_simp
  moreover have "name (file_view False) = []" "file_name (file_view False) = Some (lit ''/home/u/proj/a.txt'')"
    "lit ''/home/u/proj/a.txt'' \<noteq> []"
    by code_simp+
  ultimately show ?thesis
    using unknown_mode_unbound [of "file_view False" "lit ''/home/u/proj/a.txt''" "linux_env None ''short'' ''{path}''"]
    by simp
qed

subsection \<open>What the handlers leave unchanged\<close>

text \<open>
  The setter and the loop over the windows write window texts only; \<open>rename_window\<close>,
  \<open>run\<close> and the handlers write neither \<open>ready\<close> nor \<open>window_handle_cache\<close>, with the
  one exception of \<open>on_sublime_started\<close>, which sets \<open>ready\<close>.
\<close>

lemma set_title_frame: "\<exists>t. snd (set_title hwnd title s) = s\<lparr>titles := t\<rparr>"
proof (cases "encode_utf16 title")
  case (Inl e)
  then have "snd (set_title hwnd title s) = s\<lparr>titles := titles s\<rparr>"
    by (simp add: set_title_def)
  then show ?thesis by blast
next
  case (Inr b)
  show ?thesis
  proof (cases "hwnd \<in> dom (titles s)")
    case True
    with Inr show ?thesis
      by (simp add: set_title_def SetWindowTextW_def del: fun_upd_apply) blast
  next
    case False
    with Inr have "snd (set_title hwnd title s) = s\<lparr>titles := titles s\<rparr>"
      by (simp add: set_title_def SetWindowTextW_def)
    then show ?thesis by blast
  qed
qed

lemma rename_matching_frame:
  "\<exists>t. snd (rename_matching official_title new_title ws s) = s\<lparr>titles := t\<rparr>"
proof (induction ws arbitrary: s)
  case Nil
  have "snd (rename_matching official_title new_title [] s) = s\<lparr>titles := titles s\<rparr>"
    by simp
  then show ?case by blast
next
  case (Cons w ws)
  have keep: "\<exists>t. s = s\<lparr>titles := t\<rparr>"
    by (rule exI [of _ "titles s"]) simp
  show ?case
  proof (cases "get_title w s")
    case (Inl e)
    with keep show ?thesis by simp
  next
    case (Inr title)
    show ?thesis
    proof (cases "sublist official_title title")
      case True
      obtain r s' where st: "set_title w new_title s = (r, s')"
        by (cases "set_title w new_title s")
      then obtain t where s': "s' = s\<lparr>titles := t\<rparr>"
        using set_title_frame [of w new_title s] by auto
      show ?thesis
      proof (cases r)
        case None
        obtain t' where "snd (rename_matching official_title new_title ws s') = s'\<lparr>titles := t'\<rparr>"
          using Cons.IH [of s'] by blast
        with Inr True st None s' have
          "snd (rename_matching official_title new_title (w # ws) s) = s\<lparr>titles := t'\<rparr>"
          by simp
        then show ?thesis by blast
      next
        case (Some e)
        with Inr True st s' have
          "snd (rename_matching official_title new_title (w # ws) s) = s\<lparr>titles := t\<rparr>"
          by simp
        then show ?thesis by blast
      qed
    next
      case False
      with Inr Cons.IH [of s] show ?thesis by simp
    qed
  qed
qed


lemma rename_window_keeps:
  "ready (snd (rename_window env view_window official_title new_title s)) = ready s
   \<and> window_handle_cache (snd (rename_window env view_window official_title new_title s))
       = window_handle_cache s"
proof (cases "PLATFORM env")
  case Linux
  then show ?thesis by (simp add: rename_window_def Let_def print_line_def)
next
  case OSX
  then show ?thesis by (simp add: rename_window_def Let_def)
next
  case Windows
  show ?thesis
  proof (cases view_window)
    case None
    with Windows show ?thesis by (simp add: rename_window_def Let_def)
  next
    case (Some win)
    let ?s = "s\<lparr>renames := renames s @ [(official_title, new_title)]\<rparr>"
    show ?thesis
    proof (cases "window_handle_cache s (window_id win)")
      case None
      obtain t where "snd (rename_matching official_title new_title (EnumWindows env)
          (?s\<lparr>enumerations := Suc (enumerations ?s)\<rparr>))
        = (?s\<lparr>enumerations := Suc (enumerations ?s)\<rparr>)\<lparr>titles := t\<rparr>"
        using rename_matching_frame by blast
      with Windows Some None show ?thesis by (simp add: rename_window_def Let_def)
    next
      case (Some w)
      obtain t where "snd (set_title w new_title ?s) = ?s\<lparr>titles := t\<rparr>"
        using set_title_frame by blast
      with Windows \<open>view_window = Some win\<close> Some show ?thesis
        by (simp add: rename_window_def Let_def)
    qed
  qed
qed

lemma run_keeps:
  "ready (snd (run env view s)) = ready s
   \<and> window_handle_cache (snd (run env view s)) = window_handle_cache s"
proof (cases "ready s")
  case False
  then show ?thesis by (simp add: run_def print_line_def)
next
  case True
  let ?p = "get_project env view"
  let ?o = "get_official_title env view ?p"
  show ?thesis
  proof (cases "get_new_title env view ?p ?o")
    case (Inl e)
    with True show ?thesis by (simp add: run_def)
  next
    case (Inr new_title)
    obtain r s' where rw: "rename_window env (window view) ?o new_title s = (r, s')"
      by (cases "rename_window env (window view) ?o new_title s")
    then have "ready s' = ready s \<and> window_handle_cache s' = window_handle_cache s"
      using rename_window_keeps [of env "window view" ?o new_title s] by simp
    with True Inr rw show ?thesis
      by (cases r) (simp_all add: run_def)
  qed
qed

lemma run_each_keeps:
  "ready (snd (run_each env views s)) = ready s
   \<and> window_handle_cache (snd (run_each env views s)) = window_handle_cache s"
proof (induction views arbitrary: s)
  case Nil
  then show ?case by simp
next
  case (Cons view views)
  obtain r s' where rn: "run env view s = (r, s')" by (cases "run env view s")
  then have "ready s' = ready s \<and> window_handle_cache s' = window_handle_cache s"
    using run_keeps [of env view s] by simp
  with rn Cons.IH [of s'] show ?case by (cases r) simp_all
qed

lemma started_keeps:
  assumes "on_sublime_started env host views s = Some (e, s')"
  shows "ready s' \<and> window_handle_cache s' = window_handle_cache s"
proof -
  from assms obtain pp where "wait_packages_path host 0 = Some pp"
    by (auto simp add: on_sublime_started_def split: option.splits)
  with assms have "s' = snd (run_each env views
      ((if PLATFORM env = Linux
        then s\<lparr>script_path := Some (join (path_mod env) pp [package env, lit ''fix_window_title.sh''])\<rparr>
        else s)\<lparr>ready := True\<rparr>))"
    by (simp add: on_sublime_started_def Let_def)
  then show ?thesis by (simp add: run_each_keeps)
qed



text \<open>
  The polling loop returns as soon as the host answers with a path, and the start-up
  handler then leaves the listener ready.
\<close>

lemma wait_packages_path_returns:
  "host (i + k) \<noteq> [] \<Longrightarrow> \<exists>p. wait_packages_path host i = Some p"
proof (induction k arbitrary: i)
  case 0
  then show ?case by (simp add: wait_packages_path.simps [of host i])
next
  case (Suc k)
  then have "\<exists>p. wait_packages_path host (Suc i) = Some p" by (intro Suc.IH) simp
  then show ?case by (simp add: wait_packages_path.simps [of host i])
qed

lemma started_makes_ready:
  assumes "host k \<noteq> []"
  shows "ready (handle env (Started host views) s)"
proof -
  from assms obtain p where "wait_packages_path host 0 = Some p"
    using wait_packages_path_returns [of host 0 k] by auto
  then obtain e s' where "on_sublime_started env host views s = Some (e, s')"
    by (cases "run_each env views
        ((if PLATFORM env = Linux
          then s\<lparr>script_path := Some (join (path_mod env) p [package env, lit ''fix_window_title.sh''])\<rparr>
          else s)\<lparr>ready := True\<rparr>)")
      (simp add: on_sublime_started_def Let_def)
  then show ?thesis by (auto dest: started_keeps)
qed

subsection \<open>The template\<close>

text \<open>
  Text before the first brace is untouched by \<open>replace\<close> and copied by \<open>format\<close>; a
  field \<open>{name}\<close> whose name is not the condition's is untouched by \<open>replace\<close>, and
  \<open>format\<close> looks its name up.
\<close>

lemma replace_py_skip:
  assumes "old = o1 # os" and "o1 \<notin> set pre"
  shows "replace_py (pre @ s) old new = pre @ replace_py s old new"
  using assms by (induction pre) auto

lemma prefix_same_end:
  assumes "prefix (a @ [x]) (b @ x # r)" and "x \<notin> set a" and "x \<notin> set b"
  shows "a = b"
  using assms
proof (induction a arbitrary: b)
  case Nil
  then show ?case by (cases b) auto
next
  case (Cons y a)
  then show ?case by (cases b) auto
qed

lemma replace_py_field:
  assumes "lbrace \<notin> set nm" and "rbrace \<notin> set nm" and "rbrace \<notin> set cond" and "nm \<noteq> cond"
  shows "replace_py (lbrace # nm @ rbrace # post) (lbrace # cond @ [rbrace]) new
     = lbrace # nm @ rbrace # replace_py post (lbrace # cond @ [rbrace]) new"
proof -
  have "\<not> prefix (cond @ [rbrace]) (nm @ rbrace # post)"
    using assms prefix_same_end [of cond rbrace nm post] by auto
  then have "replace_py (lbrace # nm @ rbrace # post) (lbrace # cond @ [rbrace]) new
     = lbrace # replace_py ((nm @ [rbrace]) @ post) (lbrace # cond @ [rbrace]) new"
    by simp
  also have "replace_py ((nm @ [rbrace]) @ post) (lbrace # cond @ [rbrace]) new
     = (nm @ [rbrace]) @ replace_py post (lbrace # cond @ [rbrace]) new"
    using assms by (intro replace_py_skip [where ?o1.0 = lbrace and os = "cond @ [rbrace]"])
      (simp_all add: lbrace_def rbrace_def)
  finally show ?thesis by simp
qed

lemma format_py_literal:
  assumes "lbrace \<notin> set pre" and "rbrace \<notin> set pre"
  shows "format_py path project (pre @ s) = emit pre (format_py path project s)"
  using assms
proof (induction pre)
  case Nil
  then show ?case by (simp add: emit_def split: sum.splits)
next
  case (Cons c pre)
  then show ?case by (auto simp add: emit_def split: sum.splits)
qed

lemma plain_not_brace: "plain_name_char c \<Longrightarrow> c \<noteq> lbrace \<and> c \<noteq> rbrace"
  by (auto simp add: plain_name_char_def lbrace_def rbrace_def lit_def)

lemma not_plain_rbrace: "\<not> plain_name_char rbrace"
  by (simp add: plain_name_char_def rbrace_def lit_def)

lemma format_py_field:
  assumes "\<forall>c \<in> set nm. plain_name_char c"
  shows "format_py path project (lbrace # nm @ rbrace # rest)
     = (case get_field path project nm of
          Inl err \<Rightarrow> Inl err
        | Inr v \<Rightarrow> emit v (format_py path project rest))"
proof -
  have tw: "takeWhile plain_name_char (nm @ rbrace # rest) = nm"
    using assms not_plain_rbrace by (simp add: takeWhile_tail)
  have dw: "dropWhile plain_name_char (nm @ rbrace # rest) = rbrace # rest"
    using assms not_plain_rbrace by (simp add: dropWhile_append3)
  have lr: "lbrace \<noteq> rbrace" by (simp add: lbrace_def rbrace_def)
  obtain d ds where cs: "nm @ rbrace # rest = d # ds" by (cases nm) auto
  then have "d \<noteq> lbrace"
    using assms plain_not_brace lr by (cases nm) auto
  with cs tw dw lr show ?thesis
    using format_py.simps(2) [of path project lbrace "nm @ rbrace # rest"]
    by simp
qed

lemma get_field_unknown:
  assumes "\<not> list_all is_digit nm" and "nm \<noteq> lit ''path''" and "nm \<noteq> lit ''project''"
  shows "get_field path project nm = Inl (KeyError nm)"
  using assms by (simp add: get_field_def)

lemma replace_condition_first_field:
  assumes "lbrace \<notin> set pre" and "\<forall>c \<in> set nm. plain_name_char c"
    and "nm \<noteq> lit cond" and "rbrace \<notin> set (lit cond)"
    and "setting_get env (if val then cond @ ''_true'' else cond @ ''_false'') = PStr r"
  shows "\<exists>post'. replace_condition env (PStr (pre @ lbrace # nm @ rbrace # post)) cond val
     = Inr (PStr (pre @ lbrace # nm @ rbrace # post'))"
proof -
  let ?old = "lit (''{'' @ cond @ ''}'')"
  have old: "?old = lbrace # lit cond @ [rbrace]"
    by (simp add: lit_def lbrace_def rbrace_def)
  have nb: "lbrace \<notin> set nm" "rbrace \<notin> set nm"
    using assms(2) plain_not_brace by auto
  have "replace_py (pre @ lbrace # nm @ rbrace # post) ?old r
      = pre @ replace_py (lbrace # nm @ rbrace # post) ?old r"
    unfolding old using assms(1) by (intro replace_py_skip [where ?o1.0 = lbrace]) simp_all
  also have "replace_py (lbrace # nm @ rbrace # post) ?old r
      = lbrace # nm @ rbrace # replace_py post ?old r"
    unfolding old using nb assms(3,4) by (intro replace_py_field) simp_all
  finally have "replace_py (pre @ lbrace # nm @ rbrace # post) ?old r
      = pre @ lbrace # nm @ rbrace # replace_py post ?old r" .
  moreover have "(if val then setting_get env (cond @ ''_true'')
      else setting_get env (cond @ ''_false'')) = PStr r"
    using assms(5) by (simp split: if_splits)
  ultimately show ?thesis
    by (simp add: replace_condition_def Let_def)
qed






text \<open>
  The scenario of the specification: the template \<open>{path} - {is_dirty}Editor\<close> with
  \<open>is_dirty_true = "*"\<close>, a dirty view called \<open>foo.txt\<close>.
\<close>

lemma template_scenario:
  "get_new_title
     ((linux_env None ''full'' ''{path} - {is_dirty}Editor'')
        \<lparr>settings := (settings (linux_env None ''full'' ''{path} - {is_dirty}Editor''))
                        (''is_dirty_false'' \<mapsto> PStr [])\<rparr>)
     \<lparr> view_id = 1, name = lit ''foo.txt'', file_name = None, is_dirty = True, window = None \<rparr>
     None (lit ''foo.txt - Sublime Text'')
   = Inr (lit ''foo.txt - *Editor'')"
  by code_simp

text \<open>Rendering reads the template, the fields and the settings, and not the old title.\<close>

lemma rendering_ignores_old_title:
  "get_new_title env view project old_title = get_new_title env view project other_title"
  by (simp add: get_new_title_def)




text \<open>
  In particular, a template whose first brace opens a placeholder outside the recognized
  set raises \<open>KeyError\<close> whatever follows it.
\<close>

lemma first_unknown_placeholder_raises:
  assumes "get_displayed_path env view = Inr path"
    and "setting_get env ''template'' = PStr (pre @ lbrace # nm @ rbrace # post)"
    and "lbrace \<notin> set pre" and "rbrace \<notin> set pre"
    and "\<forall>c \<in> set nm. plain_name_char c" and "\<not> list_all is_digit nm"
    and "nm \<notin> {lit ''path'', lit ''project'', lit ''has_project'', lit ''is_dirty''}"
    and "setting_get env (if truthy (opt_val project) then ''has_project_true''
                          else ''has_project_false'') = PStr ra"
    and "setting_get env (if is_dirty view then ''is_dirty_true'' else ''is_dirty_false'') = PStr rb"
  shows "get_new_title env view project old_title = Inl (KeyError nm)"
proof -
  have c1: "rbrace \<notin> set (lit ''has_project'')" and c2: "rbrace \<notin> set (lit ''is_dirty'')"
    by (simp_all add: lit_def rbrace_def)
  from assms(7) have n1: "nm \<noteq> lit ''has_project''" and n2: "nm \<noteq> lit ''is_dirty''"
    and n3: "nm \<noteq> lit ''path''" and n4: "nm \<noteq> lit ''project''"
    by simp_all
  have s1: "setting_get env (if truthy (opt_val project) then ''has_project'' @ ''_true''
      else ''has_project'' @ ''_false'') = PStr ra"
    using assms(8) by (cases "truthy (opt_val project)") simp_all
  have s2: "setting_get env (if is_dirty view then ''is_dirty'' @ ''_true''
      else ''is_dirty'' @ ''_false'') = PStr rb"
    using assms(9) by (cases "is_dirty view") simp_all
  obtain post1 where t1:
    "replace_condition env (PStr (pre @ lbrace # nm @ rbrace # post)) ''has_project''
       (truthy (opt_val project)) = Inr (PStr (pre @ lbrace # nm @ rbrace # post1))"
    using replace_condition_first_field [OF assms(3) assms(5) n1 c1 s1] by blast
  obtain post2 where t2:
    "replace_condition env (PStr (pre @ lbrace # nm @ rbrace # post1)) ''is_dirty''
       (is_dirty view) = Inr (PStr (pre @ lbrace # nm @ rbrace # post2))"
    using replace_condition_first_field [OF assms(3) assms(5) n2 c2 s2] by blast
  have "format_py path (opt_val project) (pre @ lbrace # nm @ rbrace # post2)
      = emit pre (format_py path (opt_val project) (lbrace # nm @ rbrace # post2))"
    using assms(3,4) by (rule format_py_literal)
  also have "format_py path (opt_val project) (lbrace # nm @ rbrace # post2) = Inl (KeyError nm)"
    unfolding format_py_field [OF assms(5)] get_field_unknown [OF assms(6) n3 n4] by simp
  finally have "format_py path (opt_val project) (pre @ lbrace # nm @ rbrace # post2)
      = Inl (KeyError nm)"
    by (simp add: emit_def)
  with assms(1,2) t1 t2 show ?thesis
    by (simp add: get_new_title_def)
qed

subsection \<open>The title of a window\<close>
























subsection \<open>The window-handle cache\<close>






subsection \<open>Readiness\<close>







end
